theory Spec2Isabelle
  imports Main
begin

section \<open>JavaScript values\<close>

text \<open>
  The response builders return plain JavaScript objects and the type guards take a
  value of type \<open>any\<close>, so the model has one universe of values. An object is the list
  of its own properties in insertion order; a property whose value is \<open>undefined\<close> is
  still a property of the object. Numbers are the integers the builders handle (status
  codes, page counts, lengths).
\<close>

datatype jsval =
    JUndefined
  | JNull
  | JBool bool
  | JNum int
  | JStr string
  | JArr "jsval list"
  | JObj "(string \<times> jsval) list"

type_synonym props = "(string \<times> jsval) list"

text \<open>ToBoolean: the values that \<open>&&\<close>, \<open>||\<close> and \<open>if\<close> take as false.\<close>

fun truthy :: "jsval \<Rightarrow> bool" where
  "truthy JUndefined = False"
| "truthy JNull = False"
| "truthy (JBool b) = b"
| "truthy (JNum n) = (n \<noteq> 0)"
| "truthy (JStr s) = (s \<noteq> [])"
| "truthy (JArr xs) = True"
| "truthy (JObj ps) = True"

text \<open>\<open>o.k = v\<close>: the property keeps its place when it exists, and is added last otherwise.\<close>

fun set_prop :: "string \<Rightarrow> jsval \<Rightarrow> props \<Rightarrow> props" where
  "set_prop k v [] = [(k, v)]"
| "set_prop k v ((k', v') # ps) =
     (if k' = k then (k, v) # ps else (k', v') # set_prop k v ps)"

text \<open>\<open>{...a, ...b}\<close>: the properties of \<open>b\<close> are assigned onto a copy of \<open>a\<close>, in order.\<close>

definition spread :: "props \<Rightarrow> props \<Rightarrow> props" where
  "spread a b = foldl (\<lambda>acc kv. set_prop (fst kv) (snd kv) acc) a b"

text \<open>
  \<open>"k" in o\<close> and \<open>o.k\<close> for an object of the model. Reading a property of \<open>null\<close> or
  \<open>undefined\<close> raises a TypeError; a primitive or an array has none of the properties
  the code reads (\<open>success\<close>), so the read gives \<open>undefined\<close>.
\<close>

datatype js_error = TypeError

definition has_prop :: "jsval \<Rightarrow> string \<Rightarrow> bool" where
  "has_prop v k = (case v of JObj ps \<Rightarrow> map_of ps k \<noteq> None | _ \<Rightarrow> False)"

fun get_prop :: "jsval \<Rightarrow> string \<Rightarrow> js_error + jsval" where
  "get_prop JUndefined k = Inl TypeError"
| "get_prop JNull k = Inl TypeError"
| "get_prop (JObj ps) k = Inr (case map_of ps k of None \<Rightarrow> JUndefined | Some v \<Rightarrow> v)"
| "get_prop v k = Inr JUndefined"

text \<open>Decimal rendering of a number in a template literal or by \<open>join\<close>.\<close>

definition digit_char :: "nat \<Rightarrow> char" where
  "digit_char d = ''0123456789'' ! d"

fun show_nat :: "nat \<Rightarrow> string" where
  "show_nat n =
     (if 10 \<le> n then show_nat (n div 10) @ [digit_char (n mod 10)] else [digit_char n])"

declare show_nat.simps [simp del]

definition show_int :: "int \<Rightarrow> string" where
  "show_int i = (if 0 \<le> i then show_nat (nat i) else CHR ''-'' # show_nat (nat (- i)))"

section \<open>JSON serialisation\<close>

text \<open>
  What \<open>JSON.parse(JSON.stringify(v))\<close> gives for a value of the model:
  \<open>JSON.stringify\<close> leaves out the properties whose value is \<open>undefined\<close> and writes an
  \<open>undefined\<close> array element as \<open>null\<close>; everything else is read back as it was.
  \<open>JSON.stringify(undefined)\<close> is \<open>undefined\<close>, no text, and parsing it raises.
\<close>

fun json_value :: "jsval \<Rightarrow> jsval"
  and json_elems :: "jsval list \<Rightarrow> jsval list"
  and json_props :: "props \<Rightarrow> props" where
  "json_value JUndefined = JNull"
| "json_value JNull = JNull"
| "json_value (JBool b) = JBool b"
| "json_value (JNum n) = JNum n"
| "json_value (JStr s) = JStr s"
| "json_value (JArr xs) = JArr (json_elems xs)"
| "json_value (JObj ps) = JObj (json_props ps)"
| "json_elems [] = []"
| "json_elems (x # xs) = json_value x # json_elems xs"
| "json_props [] = []"
| "json_props ((k, v) # ps) =
     (if v = JUndefined then json_props ps else (k, json_value v) # json_props ps)"

datatype json_error = SyntaxError

definition json_roundtrip :: "jsval \<Rightarrow> json_error + jsval" where
  "json_roundtrip v = (if v = JUndefined then Inl SyntaxError else Inr (json_value v))"

section \<open>Status codes\<close>

text \<open>
  \<open>lib/http/status-codes\<close> exports the table \<open>HTTP\<close> from status key to number, the
  table \<open>HTTP_STATUS_PHRASE\<close> from number to reason phrase, and each number under its
  key's name, of which the router reads \<open>UNPROCESSABLE_ENTITY\<close>. The code takes these
  exports as they are.
\<close>

record status_codes =
  HTTP :: "string \<rightharpoonup> int"
  HTTP_STATUS_PHRASE :: "int \<rightharpoonup> string"
  UNPROCESSABLE_ENTITY :: int

text \<open>
  Modelled from the spec: the exports of \<open>lib/http/status-codes\<close>, which is not among
  the sources. The spec names the keys \<open>OK\<close> (200) and \<open>UNPROCESSABLE_ENTITY\<close> (422,
  "Unprocessable Entity"), and the keys \<open>CREATED\<close>, \<open>ACCEPTED\<close> and \<open>NO_CONTENT\<close>, whose
  numbers and phrases are those of HTTP.
\<close>

definition spec_status_codes :: status_codes where
  "spec_status_codes =
     \<lparr> HTTP = [''OK'' \<mapsto> 200, ''CREATED'' \<mapsto> 201, ''ACCEPTED'' \<mapsto> 202,
                ''NO_CONTENT'' \<mapsto> 204, ''UNPROCESSABLE_ENTITY'' \<mapsto> 422],
       HTTP_STATUS_PHRASE = [200 \<mapsto> ''OK'', 201 \<mapsto> ''Created'', 202 \<mapsto> ''Accepted'',
                204 \<mapsto> ''No Content'', 422 \<mapsto> ''Unprocessable Entity''],
       UNPROCESSABLE_ENTITY = 422 \<rparr>"

section \<open>The response builders\<close>

text \<open>
  \<open>lib/utils/response-utils.ts\<close>. An option that the caller leaves out (or passes as
  \<open>undefined\<close>) is \<open>None\<close>; \<open>data\<close> is any value, \<open>JUndefined\<close> when left out. The
  clock is an input: \<open>now\<close> is the string \<open>new Date().toISOString()\<close> returns at the
  call.
\<close>

record ErrorOptions =
  eo_name :: "string option"
  eo_issues :: "jsval list option"
  eo_timestamp :: "bool option"
  eo_requestId :: "string option"

record ResponseOptions =
  ro_data :: jsval
  ro_message :: "string option"
  ro_statusCode :: "string option"
  ro_timestamp :: "bool option"
  ro_requestId :: "string option"

text \<open>The empty options object, the default of the \<open>options\<close> parameter.\<close>

definition no_ErrorOptions :: ErrorOptions where
  "no_ErrorOptions =
     \<lparr> eo_name = None, eo_issues = None, eo_timestamp = None, eo_requestId = None \<rparr>"

definition no_ResponseOptions :: ResponseOptions where
  "no_ResponseOptions =
     \<lparr> ro_data = JUndefined, ro_message = None, ro_statusCode = None,
       ro_timestamp = None, ro_requestId = None \<rparr>"

text \<open>\<open>HTTP[statusCode]\<close>: \<open>undefined\<close> for a key the table does not have.\<close>

definition status_value :: "status_codes \<Rightarrow> string \<Rightarrow> jsval" where
  "status_value sc statusCode =
     (case HTTP sc statusCode of None \<Rightarrow> JUndefined | Some n \<Rightarrow> JNum n)"

text \<open>\<open>HTTP_STATUS_PHRASE[statusValue] || "Error"\<close>.\<close>

definition default_name :: "status_codes \<Rightarrow> string \<Rightarrow> string" where
  "default_name sc statusCode =
     (case HTTP sc statusCode of
        None \<Rightarrow> ''Error''
      | Some n \<Rightarrow>
          (case HTTP_STATUS_PHRASE sc n of
             None \<Rightarrow> ''Error''
           | Some phrase \<Rightarrow> if phrase = [] then ''Error'' else phrase))"

text \<open>\<open>if (requestId)\<close>: a request id that is left out or empty is not written.\<close>

definition add_requestId :: "string option \<Rightarrow> props \<Rightarrow> props" where
  "add_requestId requestId response =
     (case requestId of
        None \<Rightarrow> response
      | Some r \<Rightarrow> if r = [] then response else set_prop ''requestId'' (JStr r) response)"

definition HONO_ERROR ::
  "status_codes \<Rightarrow> string \<Rightarrow> string \<Rightarrow> string \<Rightarrow> ErrorOptions \<Rightarrow> jsval" where
  "HONO_ERROR sc now statusCode message options =
     (let statusValue = status_value sc statusCode;
          defaultName = default_name sc statusCode;
          name = (case eo_name options of None \<Rightarrow> defaultName | Some n \<Rightarrow> n);
          issues = eo_issues options;
          timestamp = (case eo_timestamp options of None \<Rightarrow> True | Some b \<Rightarrow> b);
          requestId = eo_requestId options;
          errorIssues =
            (case issues of None \<Rightarrow> [JObj [(''message'', JStr message)]] | Some is \<Rightarrow> is);
          response =
            [(''success'', JBool False),
             (''error'', JObj [(''name'', JStr name), (''issues'', JArr errorIssues)]),
             (''statusCode'', statusValue)];
          response1 =
            (if timestamp then set_prop ''timestamp'' (JStr now) response else response)
      in JObj (add_requestId requestId response1))"

text \<open>The table \<open>defaultMessages\<close> of \<open>HONO_RESPONSE\<close>.\<close>

definition defaultMessages :: "string \<rightharpoonup> string" where
  "defaultMessages =
     [''OK'' \<mapsto> ''Operation completed successfully'',
      ''CREATED'' \<mapsto> ''Resource created successfully'',
      ''ACCEPTED'' \<mapsto> ''Request accepted for processing'',
      ''NO_CONTENT'' \<mapsto> ''Operation completed successfully'']"

text \<open>\<open>message || defaultMessages[statusCode] || "Operation completed successfully"\<close>.\<close>

definition response_message :: "string option \<Rightarrow> string \<Rightarrow> string" where
  "response_message message statusCode =
     (case message of
        Some m \<Rightarrow>
          if m \<noteq> [] then m
          else (case defaultMessages statusCode of
                  None \<Rightarrow> ''Operation completed successfully''
                | Some d \<Rightarrow> d)
      | None \<Rightarrow>
          (case defaultMessages statusCode of
             None \<Rightarrow> ''Operation completed successfully''
           | Some d \<Rightarrow> d))"

definition HONO_RESPONSE :: "status_codes \<Rightarrow> string \<Rightarrow> ResponseOptions \<Rightarrow> jsval" where
  "HONO_RESPONSE sc now options =
     (let data = ro_data options;
          message = ro_message options;
          statusCode = (case ro_statusCode options of None \<Rightarrow> ''OK'' | Some k \<Rightarrow> k);
          timestamp = (case ro_timestamp options of None \<Rightarrow> True | Some b \<Rightarrow> b);
          requestId = ro_requestId options;
          statusValue = status_value sc statusCode;
          responseMessage = response_message message statusCode;
          response =
            [(''success'', JBool True),
             (''message'', JStr responseMessage),
             (''statusCode'', statusValue)];
          response1 =
            (if data \<noteq> JUndefined \<and> statusCode \<noteq> ''NO_CONTENT''
             then set_prop ''data'' data response else response);
          response2 =
            (if timestamp then set_prop ''timestamp'' (JStr now) response1 else response1)
      in JObj (add_requestId requestId response2))"

text \<open>
  The \<open>pagination\<close> argument, and the options of the paginated builder
  (\<open>Omit<ResponseOptions, "data">\<close>).
\<close>

record Pagination =
  pg_page :: int
  pg_limit :: int
  pg_total :: int
  pg_totalPages :: int
  pg_hasNext :: "bool option"
  pg_hasPrev :: "bool option"

record PaginatedOptions =
  po_message :: "string option"
  po_statusCode :: "string option"
  po_timestamp :: "bool option"
  po_requestId :: "string option"

definition no_PaginatedOptions :: PaginatedOptions where
  "no_PaginatedOptions =
     \<lparr> po_message = None, po_statusCode = None, po_timestamp = None, po_requestId = None \<rparr>"

text \<open>
  \<open>paginationData\<close>: the caller's pagination with \<open>hasNext\<close> and \<open>hasPrev\<close> set by
  \<open>??\<close>, which keeps every value the caller gave, \<open>false\<close> too.
\<close>

definition paginationData :: "Pagination \<Rightarrow> jsval" where
  "paginationData pagination =
     JObj [(''page'', JNum (pg_page pagination)),
           (''limit'', JNum (pg_limit pagination)),
           (''total'', JNum (pg_total pagination)),
           (''totalPages'', JNum (pg_totalPages pagination)),
           (''hasNext'', JBool (case pg_hasNext pagination of
                                  None \<Rightarrow> pg_page pagination < pg_totalPages pagination
                                | Some b \<Rightarrow> b)),
           (''hasPrev'', JBool (case pg_hasPrev pagination of
                                  None \<Rightarrow> pg_page pagination > 1
                                | Some b \<Rightarrow> b))]"

text \<open>\<open>options.message || `Retrieved ${data.length} items`\<close>.\<close>

definition paginated_message :: "string option \<Rightarrow> jsval list \<Rightarrow> string" where
  "paginated_message message items =
     (case message of
        None \<Rightarrow> ''Retrieved '' @ show_nat (length items) @ '' items''
      | Some m \<Rightarrow>
          if m = [] then ''Retrieved '' @ show_nat (length items) @ '' items'' else m)"

definition HONO_PAGINATED_RESPONSE ::
  "status_codes \<Rightarrow> string \<Rightarrow> jsval list \<Rightarrow> Pagination \<Rightarrow> PaginatedOptions \<Rightarrow> jsval" where
  "HONO_PAGINATED_RESPONSE sc now items pagination options =
     HONO_RESPONSE sc now
       \<lparr> ro_data = JObj [(''items'', JArr items), (''pagination'', paginationData pagination)],
         ro_message = Some (paginated_message (po_message options) items),
         ro_statusCode = po_statusCode options,
         ro_timestamp = po_timestamp options,
         ro_requestId = po_requestId options \<rparr>"

text \<open>
  The type guards. \<open>a && b\<close> is \<open>a\<close> itself when \<open>a\<close> is not truthy, so the result is a
  value, not always a boolean; \<open>===\<close> against a boolean literal compares without
  conversion.
\<close>

definition isErrorResponse :: "jsval \<Rightarrow> js_error + jsval" where
  "isErrorResponse response =
     (if truthy response
      then (case get_prop response ''success'' of
              Inl e \<Rightarrow> Inl e
            | Inr s \<Rightarrow> Inr (JBool (s = JBool False)))
      else Inr response)"

definition isSuccessResponse :: "jsval \<Rightarrow> js_error + jsval" where
  "isSuccessResponse response =
     (if truthy response
      then (case get_prop response ''success'' of
              Inl e \<Rightarrow> Inl e
            | Inr s \<Rightarrow> Inr (JBool (s = JBool True)))
      else Inr response)"

section \<open>The validation hook\<close>

text \<open>
  \<open>lib/core/create-router.ts\<close>. The routing layer hands the hook the result of the
  schema validation and the request context. A failed result carries a Zod error
  whose issues have a message, a path of object keys and array indices, and a code;
  the hook is typed on \<open>any\<close> and guards each step, so the error and its issues may be
  missing.
\<close>

datatype PropertyKey = Key string | Index nat

record ZodIssue =
  zi_message :: string
  zi_path :: "PropertyKey list"
  zi_code :: string

record ZodError =
  ze_issues :: "ZodIssue list option"

record ValidationResult =
  vr_success :: bool
  vr_error :: "ZodError option"

text \<open>The variables of the request context, read by \<open>c.get\<close>.\<close>

type_synonym Context = "string \<rightharpoonup> string"

text \<open>\<open>path.join(".")\<close>: every element as a string, a dot between two elements.\<close>

fun string_of_key :: "PropertyKey \<Rightarrow> string" where
  "string_of_key (Key s) = s"
| "string_of_key (Index n) = show_nat n"

fun join_dot :: "string list \<Rightarrow> string" where
  "join_dot [] = []"
| "join_dot [s] = s"
| "join_dot (s # t # ss) = s @ ''.'' @ join_dot (t # ss)"

text \<open>\<open>s || undefined\<close> for a string \<open>s\<close>.\<close>

definition or_undefined :: "string \<Rightarrow> jsval" where
  "or_undefined s = (if s = [] then JUndefined else JStr s)"

definition issue_object :: "ZodIssue \<Rightarrow> jsval" where
  "issue_object issue =
     JObj [(''message'', JStr (zi_message issue)),
           (''path'', or_undefined (join_dot (map string_of_key (zi_path issue)))),
           (''code'', or_undefined (zi_code issue))]"

text \<open>
  \<open>c.json(object, status)\<close>: a response with the JSON text of the object as its body,
  held here as the value that text denotes, and the given status. The hook passes it
  an object.
\<close>

record Response =
  resp_body :: jsval
  resp_status :: int

definition c_json :: "jsval \<Rightarrow> int \<Rightarrow> Response" where
  "c_json object status = \<lparr> resp_body = json_value object, resp_status = status \<rparr>"

text \<open>
  \<open>"error" in result && result.error?.issues\<close>: the issues of the result's error, when
  the result has an error and the error has issues. They are an array, and an array is
  truthy even when empty.
\<close>

definition result_issues :: "ValidationResult \<Rightarrow> ZodIssue list option" where
  "result_issues result = (case vr_error result of None \<Rightarrow> None | Some e \<Rightarrow> ze_issues e)"

text \<open>
  The hook made by \<open>createDefaultHook(includeErrorDetails)\<close>. It returns a response for
  a failed validation and nothing (\<open>None\<close>) otherwise.
\<close>

definition createDefaultHook ::
  "status_codes \<Rightarrow> string \<Rightarrow> bool \<Rightarrow> ValidationResult \<Rightarrow> Context \<Rightarrow> Response option" where
  "createDefaultHook sc now includeErrorDetails result c =
     (if \<not> vr_success result then
        (let requestId = c ''requestId'';
             issues =
               (case (if includeErrorDetails then result_issues result else None) of
                  Some zis \<Rightarrow> map issue_object zis
                | None \<Rightarrow> [JObj [(''message'', JStr ''Validation failed'')]]);
             errorResponse =
               HONO_ERROR sc now ''UNPROCESSABLE_ENTITY'' ''Validation failed''
                 \<lparr> eo_name = Some ''Validation Error'', eo_issues = Some issues,
                   eo_timestamp = Some True, eo_requestId = requestId \<rparr>
         in Some (c_json errorResponse (UNPROCESSABLE_ENTITY sc)))
      else None)"

section \<open>The logger\<close>

text \<open>
  The logger of \<open>src/env.ts\<close> (the module \<open>lib/core/hono-logger\<close>). A logger operation
  writes a console line and may call the Sentry client; the model returns what the
  operation does, in order. The configuration is read from \<open>env\<close>, of which the logger
  uses three fields.
\<close>

datatype node_env = development | test | production

record env =
  NODE_ENV :: node_env
  SENTRY_ENABLED :: bool
  SENTRY_ENABLE_LOGS :: bool

datatype level = L_error | L_warn | L_log | L_debug | L_verbose

fun SENTRY_LEVELS :: "level \<Rightarrow> string" where
  "SENTRY_LEVELS L_error = ''error''"
| "SENTRY_LEVELS L_warn = ''warning''"
| "SENTRY_LEVELS L_log = ''info''"
| "SENTRY_LEVELS L_debug = ''debug''"
| "SENTRY_LEVELS L_verbose = ''debug''"

text \<open>
  What the operations take from the runtime at a call: the token \<open>nanoid()\<close> returns,
  the string \<open>new Date().toUTCString()\<close> returns, and \<open>JSON.stringify(context, null, 2)\<close>,
  which returns the text or throws.
\<close>

datatype stringify_result = Returned string | ThrewError string | ThrewOther

record runtime =
  rt_nanoid :: string
  rt_toUTCString :: string
  rt_stringify :: "props \<Rightarrow> stringify_result"

record Breadcrumb =
  bc_message :: string
  bc_level :: string
  bc_category :: string
  bc_data :: jsval

record CaptureContext =
  cc_tags :: props
  cc_level :: "string option"
  cc_extra :: jsval

record SentryUser =
  su_id :: "string option"
  su_email :: "string option"
  su_username :: "string option"

datatype sentry_call =
    Sentry_addBreadcrumb Breadcrumb
  | Sentry_captureException string CaptureContext
  | Sentry_captureMessage string CaptureContext
  | Sentry_setContext string props
  | Sentry_setUser SentryUser
  | Sentry_setTag string string

datatype effect = console_log string | Sentry sentry_call

text \<open>The collector calls among the effects of an operation, in order.\<close>

fun sentry_calls :: "effect list \<Rightarrow> sentry_call list" where
  "sentry_calls [] = []"
| "sentry_calls (console_log s # es) = sentry_calls es"
| "sentry_calls (Sentry call # es) = call # sentry_calls es"

text \<open>The calls that capture an exception or a message.\<close>

fun is_capture :: "sentry_call \<Rightarrow> bool" where
  "is_capture (Sentry_captureException m cc) = True"
| "is_capture (Sentry_captureMessage m cc) = True"
| "is_capture call = False"

subsection \<open>Console colours\<close>

definition ESC :: string where
  "ESC = [CHR 0x1B]"

definition COLORS_Reset :: string where
  "COLORS_Reset = ESC @ ''[0m''"

definition COLORS_Dim :: string where
  "COLORS_Dim = ESC @ ''[2m''"

text \<open>
  \<open>parseInt(s, 16)\<close>: leading white space, a sign and a \<open>0x\<close> prefix are skipped, then the
  longest run of hexadecimal digits is read; \<open>None\<close> is \<open>NaN\<close>, when there is no digit.
\<close>

definition hex_digit :: "char \<Rightarrow> nat option" where
  "hex_digit ch =
     map_of
       [(CHR ''0'', 0), (CHR ''1'', 1), (CHR ''2'', 2), (CHR ''3'', 3), (CHR ''4'', 4),
        (CHR ''5'', 5), (CHR ''6'', 6), (CHR ''7'', 7), (CHR ''8'', 8), (CHR ''9'', 9),
        (CHR ''a'', 10), (CHR ''b'', 11), (CHR ''c'', 12), (CHR ''d'', 13), (CHR ''e'', 14),
        (CHR ''f'', 15), (CHR ''A'', 10), (CHR ''B'', 11), (CHR ''C'', 12), (CHR ''D'', 13),
        (CHR ''E'', 14), (CHR ''F'', 15)] ch"

definition white_space :: "char \<Rightarrow> bool" where
  "white_space ch = (ch \<in> set [CHR 0x09, CHR 0x0A, CHR 0x0B, CHR 0x0C, CHR 0x0D, CHR 0x20])"

fun hex_digits :: "string \<Rightarrow> nat list" where
  "hex_digits [] = []"
| "hex_digits (ch # s) = (case hex_digit ch of None \<Rightarrow> [] | Some d \<Rightarrow> d # hex_digits s)"

definition parseInt16 :: "string \<Rightarrow> int option" where
  "parseInt16 str =
     (let s = dropWhile white_space str;
          negative = (take 1 s = ''-'');
          s1 = (if take 1 s = ''-'' \<or> take 1 s = ''+'' then drop 1 s else s);
          s2 = (if take 2 s1 = ''0x'' \<or> take 2 s1 = ''0X'' then drop 2 s1 else s1);
          ds = hex_digits s2;
          n = int (foldl (\<lambda>acc d. 16 * acc + d) 0 ds)
      in if ds = [] then None else Some (if negative then - n else n))"

definition show_number :: "int option \<Rightarrow> string" where
  "show_number n = (case n of None \<Rightarrow> ''NaN'' | Some i \<Rightarrow> show_int i)"

definition hexToAnsi :: "string \<Rightarrow> bool \<Rightarrow> string" where
  "hexToAnsi hex isBg =
     (let r = parseInt16 (take 2 (drop 1 hex));
          g = parseInt16 (take 2 (drop 3 hex));
          b = parseInt16 (take 2 (drop 5 hex))
      in ESC @ ''['' @ (if isBg then ''48'' else ''38'') @ '';2;'' @ show_number r @ '';''
           @ show_number g @ '';'' @ show_number b @ ''m'')"

definition COLORS_hex :: "string \<Rightarrow> string" where
  "COLORS_hex hex = hexToAnsi hex False"

subsection \<open>Log entries\<close>

text \<open>
  \<open>formatContext\<close>: nothing for a missing or empty context, otherwise a new line and
  the pretty-printed context, or a placeholder naming the failure when
  \<open>JSON.stringify\<close> throws. \<open>createLogEntry\<close> draws the identifier for the levels
  \<open>error\<close>, \<open>warn\<close> and \<open>verbose\<close>.
\<close>

definition formatContext :: "runtime \<Rightarrow> props option \<Rightarrow> string" where
  "formatContext rt context =
     (case context of
        None \<Rightarrow> []
      | Some ps \<Rightarrow>
          if length (map fst ps) = 0 then []
          else (case rt_stringify rt ps of
                  Returned s \<Rightarrow> [CHR 0x0A] @ s
                | ThrewError m \<Rightarrow> [CHR 0x0A] @ ''[Context serialization failed: '' @ m @ '']''
                | ThrewOther \<Rightarrow>
                    [CHR 0x0A] @ ''[Context serialization failed: '' @ ''Unknown error'' @ '']''))"

record LogEntry =
  le_logId :: "string option"
  le_timestamp :: string
  le_level :: level
  le_message :: string
  le_context :: props
  le_contextStr :: string
  le_fullMessage :: string

definition createLogEntry :: "runtime \<Rightarrow> level \<Rightarrow> string \<Rightarrow> props option \<Rightarrow> LogEntry" where
  "createLogEntry rt lvl message context =
     (let logId = (if lvl \<in> set [L_error, L_warn, L_verbose]
                   then Some (rt_nanoid rt) else None);
          timestamp = rt_toUTCString rt;
          contextStr = formatContext rt context
      in \<lparr> le_logId = logId,
           le_timestamp = timestamp,
           le_level = lvl,
           le_message = message,
           le_context = (case context of None \<Rightarrow> [] | Some ps \<Rightarrow> ps),
           le_contextStr = contextStr,
           le_fullMessage = message @ contextStr \<rparr>)"

text \<open>A log id as a value, and in a template literal.\<close>

definition logId_value :: "string option \<Rightarrow> jsval" where
  "logId_value logId = (case logId of None \<Rightarrow> JUndefined | Some i \<Rightarrow> JStr i)"

definition logId_text :: "string option \<Rightarrow> string" where
  "logId_text logId = (case logId of None \<Rightarrow> ''undefined'' | Some i \<Rightarrow> i)"

subsection \<open>The level operations\<close>

text \<open>
  An \<open>Error\<close> object is held as its message. The tags of a capture are
  \<open>{source: "custom-logger", logId}\<close>.
\<close>

definition capture_tags :: "string option \<Rightarrow> props" where
  "capture_tags logId = [(''source'', JStr ''custom-logger''), (''logId'', logId_value logId)]"

definition logger_error :: "env \<Rightarrow> runtime \<Rightarrow> string \<Rightarrow> props option \<Rightarrow> effect list" where
  "logger_error e rt message context =
     (let logEntry = createLogEntry rt L_error message context
      in [console_log
            (COLORS_Dim @ ''['' @ le_timestamp logEntry @ '']: '' @ logId_text (le_logId logEntry)
             @ '' -'' @ COLORS_Reset @ COLORS_hex ''#d11824ff'' @ '' ERROR - ''
             @ le_fullMessage logEntry @ COLORS_Reset)]
         @ (if SENTRY_ENABLED e \<and> SENTRY_ENABLE_LOGS e then
              [Sentry (Sentry_addBreadcrumb
                 \<lparr> bc_message = le_message logEntry,
                   bc_level = SENTRY_LEVELS L_error,
                   bc_category = ''logger'',
                   bc_data = JObj (spread [(''logId'', logId_value (le_logId logEntry))]
                                          (le_context logEntry)) \<rparr>),
               Sentry (Sentry_captureException (le_message logEntry)
                 \<lparr> cc_tags = capture_tags (le_logId logEntry),
                   cc_level = Some ''error'',
                   cc_extra = JObj (le_context logEntry) \<rparr>)]
            else []))"

definition logger_debug :: "env \<Rightarrow> runtime \<Rightarrow> string \<Rightarrow> props option \<Rightarrow> effect list" where
  "logger_debug e rt message context =
     (let logEntry = createLogEntry rt L_debug message context
      in [console_log
            (COLORS_Dim @ ''['' @ le_timestamp logEntry @ '']: -'' @ COLORS_Reset
             @ COLORS_hex ''#da61e7ff'' @ '' DEBUG - '' @ le_fullMessage logEntry
             @ COLORS_Reset)]
         @ (if SENTRY_ENABLED e \<and> SENTRY_ENABLE_LOGS e \<and> NODE_ENV e = development then
              [Sentry (Sentry_addBreadcrumb
                 \<lparr> bc_message = le_message logEntry,
                   bc_level = SENTRY_LEVELS L_debug,
                   bc_category = ''logger'',
                   bc_data = JObj (le_context logEntry) \<rparr>)]
            else []))"

definition logger_log :: "env \<Rightarrow> runtime \<Rightarrow> string \<Rightarrow> props option \<Rightarrow> effect list" where
  "logger_log e rt message context =
     (let logEntry = createLogEntry rt L_log message context
      in [console_log
            (COLORS_Dim @ ''['' @ le_timestamp logEntry @ '']: -'' @ COLORS_Reset
             @ COLORS_hex ''#22b872ff'' @ '' LOG - '' @ le_fullMessage logEntry
             @ COLORS_Reset)]
         @ (if SENTRY_ENABLED e \<and> SENTRY_ENABLE_LOGS e then
              [Sentry (Sentry_addBreadcrumb
                 \<lparr> bc_message = le_message logEntry,
                   bc_level = SENTRY_LEVELS L_log,
                   bc_category = ''logger'',
                   bc_data = JObj (le_context logEntry) \<rparr>)]
            else []))"

definition logger_warn :: "env \<Rightarrow> runtime \<Rightarrow> string \<Rightarrow> props option \<Rightarrow> effect list" where
  "logger_warn e rt message context =
     (let logEntry = createLogEntry rt L_warn message context
      in [console_log
            (COLORS_Dim @ ''['' @ le_timestamp logEntry @ '']: '' @ logId_text (le_logId logEntry)
             @ '' -'' @ COLORS_Reset @ COLORS_hex ''#bb7339ff'' @ '' WARN - ''
             @ le_fullMessage logEntry @ COLORS_Reset)]
         @ (if SENTRY_ENABLED e \<and> SENTRY_ENABLE_LOGS e then
              [Sentry (Sentry_addBreadcrumb
                 \<lparr> bc_message = le_message logEntry,
                   bc_level = SENTRY_LEVELS L_warn,
                   bc_category = ''logger'',
                   bc_data = JObj (spread [(''logId'', logId_value (le_logId logEntry))]
                                          (le_context logEntry)) \<rparr>),
               Sentry (Sentry_captureMessage (le_message logEntry)
                 \<lparr> cc_tags = capture_tags (le_logId logEntry),
                   cc_level = Some ''warning'',
                   cc_extra = JObj (le_context logEntry) \<rparr>)]
            else []))"

definition logger_verbose :: "env \<Rightarrow> runtime \<Rightarrow> string \<Rightarrow> props option \<Rightarrow> effect list" where
  "logger_verbose e rt message context =
     (let logEntry = createLogEntry rt L_verbose message context
      in [console_log
            (COLORS_Dim @ ''['' @ le_timestamp logEntry @ '']: '' @ logId_text (le_logId logEntry)
             @ '' -'' @ COLORS_Reset @ COLORS_hex ''#33c7de'' @ '' VERBOSE - ''
             @ le_fullMessage logEntry @ COLORS_Reset)]
         @ (if SENTRY_ENABLED e \<and> SENTRY_ENABLE_LOGS e \<and> NODE_ENV e = development then
              [Sentry (Sentry_addBreadcrumb
                 \<lparr> bc_message = le_message logEntry,
                   bc_level = SENTRY_LEVELS L_verbose,
                   bc_category = ''logger'',
                   bc_data = JObj (spread [(''logId'', logId_value (le_logId logEntry))]
                                          (le_context logEntry)) \<rparr>)]
            else []))"

subsection \<open>The operations of \<open>logger.sentry\<close>\<close>

text \<open>An optional object argument as a value.\<close>

definition optional_object :: "props option \<Rightarrow> jsval" where
  "optional_object ps = (case ps of None \<Rightarrow> JUndefined | Some p \<Rightarrow> JObj p)"

definition logger_sentry_captureException ::
  "env \<Rightarrow> runtime \<Rightarrow> string \<Rightarrow> props option \<Rightarrow> effect list" where
  "logger_sentry_captureException e rt error_message context =
     (let logId = rt_nanoid rt
      in [console_log
            (COLORS_Dim @ ''['' @ rt_toUTCString rt @ '']: '' @ logId @ '' -'' @ COLORS_Reset
             @ COLORS_hex ''#d11824ff'' @ '' EXCEPTION - '' @ error_message @ COLORS_Reset)]
         @ (if SENTRY_ENABLED e then
              [Sentry (Sentry_captureException error_message
                 \<lparr> cc_tags = capture_tags (Some logId),
                   cc_level = None,
                   cc_extra = optional_object context \<rparr>)]
            else []))"

definition logger_sentry_setContext :: "env \<Rightarrow> string \<Rightarrow> props \<Rightarrow> effect list" where
  "logger_sentry_setContext e key context =
     (if SENTRY_ENABLED e then [Sentry (Sentry_setContext key context)] else [])"

definition logger_sentry_setUser :: "env \<Rightarrow> SentryUser \<Rightarrow> effect list" where
  "logger_sentry_setUser e user =
     (if SENTRY_ENABLED e then [Sentry (Sentry_setUser user)] else [])"

definition logger_sentry_setTag :: "env \<Rightarrow> string \<Rightarrow> string \<Rightarrow> effect list" where
  "logger_sentry_setTag e key val =
     (if SENTRY_ENABLED e then [Sentry (Sentry_setTag key val)] else [])"

definition logger_sentry_captureMessage ::
  "env \<Rightarrow> runtime \<Rightarrow> string \<Rightarrow> string option \<Rightarrow> props option \<Rightarrow> effect list" where
  "logger_sentry_captureMessage e rt message lvl extra =
     (let level = (case lvl of None \<Rightarrow> ''info'' | Some l \<Rightarrow> l);
          logId = rt_nanoid rt
      in if SENTRY_ENABLED e then
           [Sentry (Sentry_captureMessage message
              \<lparr> cc_tags = capture_tags (Some logId),
                cc_level = Some level,
                cc_extra = optional_object extra \<rparr>)]
         else [])"

definition logger_sentry_addBreadcrumb ::
  "env \<Rightarrow> string \<Rightarrow> string option \<Rightarrow> string option \<Rightarrow> props option \<Rightarrow> effect list" where
  "logger_sentry_addBreadcrumb e message cat lvl data =
     (let category = (case cat of None \<Rightarrow> ''custom'' | Some c \<Rightarrow> c);
          level = (case lvl of None \<Rightarrow> ''info'' | Some l \<Rightarrow> l)
      in if SENTRY_ENABLED e then
           [Sentry (Sentry_addBreadcrumb
              \<lparr> bc_message = message,
                bc_level = level,
                bc_category = category,
                bc_data = optional_object data \<rparr>)]
         else [])"

section \<open>Reading an envelope\<close>

text \<open>
  The properties below are stated on what a client reads from an envelope: \<open>field\<close> is
  an own property of an object (\<open>None\<close> when the object has no such property), and
  \<open>lookup_path\<close> follows a path of property names.
\<close>

definition field :: "jsval \<Rightarrow> string \<Rightarrow> jsval option" where
  "field v k = (case v of JObj ps \<Rightarrow> map_of ps k | _ \<Rightarrow> None)"

fun lookup_path :: "jsval \<Rightarrow> string list \<Rightarrow> jsval option" where
  "lookup_path v [] = Some v"
| "lookup_path v (k # ks) = (case field v k of None \<Rightarrow> None | Some w \<Rightarrow> lookup_path w ks)"

section \<open>Properties of the model's building blocks\<close>

lemma field_JObj [simp]: "field (JObj ps) k = map_of ps k"
  by (simp add: field_def)

lemma map_of_set_prop: "map_of (set_prop k v ps) k' = (if k' = k then Some v else map_of ps k')"
  by (induction ps) auto

lemma json_elems_map: "json_elems xs = map json_value xs"
  by (induction xs) simp_all

lemma show_nat_digit: "n < 10 \<Longrightarrow> show_nat n = [digit_char n]"
  by (simp add: show_nat.simps [of n])

text \<open>The envelopes, property by property.\<close>

lemma json_props_append: "json_props (xs @ ys) = json_props xs @ json_props ys"
  by (induction xs) auto

lemma HONO_ERROR_explicit:
  "HONO_ERROR sc now statusCode message options
     = JObj ([(''success'', JBool False),
              (''error'',
               JObj [(''name'', JStr (case eo_name options of
                                        None \<Rightarrow> default_name sc statusCode
                                      | Some n \<Rightarrow> n)),
                     (''issues'', JArr (case eo_issues options of
                                          None \<Rightarrow> [JObj [(''message'', JStr message)]]
                                        | Some is \<Rightarrow> is))]),
              (''statusCode'', status_value sc statusCode)]
             @ (if eo_timestamp options = Some False then [] else [(''timestamp'', JStr now)])
             @ (case eo_requestId options of
                  None \<Rightarrow> []
                | Some r \<Rightarrow> if r = [] then [] else [(''requestId'', JStr r)]))"
  by (cases "eo_requestId options"; cases "eo_timestamp options";
      simp add: HONO_ERROR_def Let_def add_requestId_def)

lemma HONO_RESPONSE_explicit:
  "HONO_RESPONSE sc now options
     = JObj ([(''success'', JBool True),
              (''message'',
               JStr (response_message (ro_message options)
                       (case ro_statusCode options of None \<Rightarrow> ''OK'' | Some k \<Rightarrow> k))),
              (''statusCode'',
               status_value sc (case ro_statusCode options of None \<Rightarrow> ''OK'' | Some k \<Rightarrow> k))]
             @ (if ro_data options \<noteq> JUndefined
                  \<and> (case ro_statusCode options of None \<Rightarrow> ''OK'' | Some k \<Rightarrow> k) \<noteq> ''NO_CONTENT''
                then [(''data'', ro_data options)] else [])
             @ (if ro_timestamp options = Some False then [] else [(''timestamp'', JStr now)])
             @ (case ro_requestId options of
                  None \<Rightarrow> []
                | Some r \<Rightarrow> if r = [] then [] else [(''requestId'', JStr r)]))"
  by (cases "ro_requestId options"; cases "ro_timestamp options";
      simp add: HONO_RESPONSE_def Let_def add_requestId_def)

lemma map_of_requestId_prop:
  "k \<noteq> ''requestId'' \<Longrightarrow>
     map_of (case r of None \<Rightarrow> [] | Some i \<Rightarrow> if i = [] then [] else [(''requestId'', JStr i)]) k
       = None"
  by (cases r) simp_all

text \<open>Every envelope starts with its discriminant.\<close>

lemma HONO_ERROR_shape:
  "\<exists>rest. HONO_ERROR sc now statusCode message options = JObj ((''success'', JBool False) # rest)"
  by (simp add: HONO_ERROR_explicit)

lemma HONO_RESPONSE_shape:
  "\<exists>rest. HONO_RESPONSE sc now options = JObj ((''success'', JBool True) # rest)"
  by (simp add: HONO_RESPONSE_explicit)

lemma HONO_PAGINATED_RESPONSE_shape:
  "\<exists>rest. HONO_PAGINATED_RESPONSE sc now items pagination options
            = JObj ((''success'', JBool True) # rest)"
  unfolding HONO_PAGINATED_RESPONSE_def by (rule HONO_RESPONSE_shape)

text \<open>The discriminant survives serialisation, and the guards read it back.\<close>

lemma roundtrip_guards:
  "json_roundtrip (JObj ((''success'', JBool b) # rest))
     = Inr (JObj ((''success'', JBool b) # json_props rest))
   \<and> isSuccessResponse (JObj ((''success'', JBool b) # json_props rest)) = Inr (JBool b)
   \<and> isErrorResponse (JObj ((''success'', JBool b) # json_props rest)) = Inr (JBool (\<not> b))"
  by (simp add: json_roundtrip_def isSuccessResponse_def isErrorResponse_def)

text \<open>An issue of the hook as it stands in the JSON body.\<close>

lemma json_value_issue_object:
  "json_value (issue_object i) =
     JObj ([(''message'', JStr (zi_message i))]
           @ (if join_dot (map string_of_key (zi_path i)) = [] then []
              else [(''path'', JStr (join_dot (map string_of_key (zi_path i))))])
           @ (if zi_code i = [] then [] else [(''code'', JStr (zi_code i))]))"
  by (simp add: issue_object_def or_undefined_def)

lemma join_dot_root: "join_dot (map string_of_key []) = []"
  by simp

text \<open>The hook answers a failed validation only.\<close>

lemma createDefaultHook_success:
  "vr_success result \<Longrightarrow> createDefaultHook sc now includeErrorDetails result c = None"
  by (simp add: createDefaultHook_def)

text \<open>The guards raise on no input, and their result is truthy exactly on a matching discriminant.\<close>

lemma guards_never_raise:
  "(\<exists>v. isErrorResponse response = Inr v) \<and> (\<exists>v. isSuccessResponse response = Inr v)"
  by (cases response) (simp_all add: isErrorResponse_def isSuccessResponse_def)

lemma guards_truthy:
  "\<exists>v w. isErrorResponse response = Inr v \<and> isSuccessResponse response = Inr w
      \<and> truthy v = (lookup_path response [''success''] = Some (JBool False))
      \<and> truthy w = (lookup_path response [''success''] = Some (JBool True))"
  by (cases response)
     (auto simp: isErrorResponse_def isSuccessResponse_def field_def split: option.splits)

lemma guards_boolean_on_truthy:
  "truthy response \<Longrightarrow>
     isErrorResponse response
       = Inr (JBool (lookup_path response [''success''] = Some (JBool False)))
   \<and> isSuccessResponse response
       = Inr (JBool (lookup_path response [''success''] = Some (JBool True)))"
  by (cases response)
     (auto simp: isErrorResponse_def isSuccessResponse_def field_def split: option.splits)

lemma guards_on_envelopes:
  "isErrorResponse (HONO_ERROR sc now statusCode message eoptions) = Inr (JBool True)
   \<and> isSuccessResponse (HONO_ERROR sc now statusCode message eoptions) = Inr (JBool False)
   \<and> isSuccessResponse (HONO_RESPONSE sc now options) = Inr (JBool True)
   \<and> isErrorResponse (HONO_RESPONSE sc now options) = Inr (JBool False)"
proof -
  obtain r1 where r1:
    "HONO_ERROR sc now statusCode message eoptions = JObj ((''success'', JBool False) # r1)"
    using HONO_ERROR_shape by blast
  obtain r2 where r2: "HONO_RESPONSE sc now options = JObj ((''success'', JBool True) # r2)"
    using HONO_RESPONSE_shape by blast
  show ?thesis by (simp add: r1 r2 isErrorResponse_def isSuccessResponse_def)
qed

lemma guards_examples:
  "isErrorResponse (JNum 42) = Inr (JBool False)
   \<and> isErrorResponse (JObj []) = Inr (JBool False)
   \<and> isSuccessResponse (JNum 42) = Inr (JBool False)
   \<and> isSuccessResponse (JObj []) = Inr (JBool False)"
  by (simp add: isErrorResponse_def isSuccessResponse_def)

section \<open>The error builder\<close>

text \<open>
  Claim C6, as amended. For every call of \<open>HONO_ERROR\<close> the envelope has
  \<open>success = false\<close>; \<open>statusCode\<close> is the number the table \<open>HTTP\<close> gives for the status
  key; \<open>error.name\<close> is the caller's name when one is supplied, and otherwise the
  status's phrase, or \<open>"Error"\<close> when the phrase is missing or empty; \<open>error.issues\<close> is
  the caller's sequence when one is supplied and the singleton \<open>[{message}]\<close>
  otherwise, so it is empty exactly when the caller supplies an empty sequence. In
  particular \<open>HONO_ERROR("UNPROCESSABLE_ENTITY", "bad input")\<close> is
  \<open>{success: false, error: {name: "Unprocessable Entity", issues: [{message: "bad input"}]},
  statusCode: 422, timestamp}\<close>, the timestamp being the clock's ISO string.
\<close>

theorem HONO_ERROR_envelope:
  "lookup_path (HONO_ERROR sc now statusCode message options) [''success''] = Some (JBool False)
   \<and> lookup_path (HONO_ERROR sc now statusCode message options) [''statusCode'']
       = Some (case HTTP sc statusCode of None \<Rightarrow> JUndefined | Some n \<Rightarrow> JNum n)
   \<and> lookup_path (HONO_ERROR sc now statusCode message options) [''error'', ''name'']
       = Some (JStr (case eo_name options of
                       Some n \<Rightarrow> n
                     | None \<Rightarrow>
                         (case HTTP sc statusCode of
                            None \<Rightarrow> ''Error''
                          | Some n \<Rightarrow>
                              (case HTTP_STATUS_PHRASE sc n of
                                 None \<Rightarrow> ''Error''
                               | Some phrase \<Rightarrow> if phrase = [] then ''Error'' else phrase))))
   \<and> lookup_path (HONO_ERROR sc now statusCode message options) [''error'', ''issues'']
       = Some (JArr (case eo_issues options of
                       None \<Rightarrow> [JObj [(''message'', JStr message)]]
                     | Some is \<Rightarrow> is))
   \<and> (lookup_path (HONO_ERROR sc now statusCode message options) [''error'', ''issues'']
        = Some (JArr [])) = (eo_issues options = Some [])
   \<and> HONO_ERROR spec_status_codes now ''UNPROCESSABLE_ENTITY'' ''bad input'' no_ErrorOptions
       = JObj [(''success'', JBool False),
               (''error'', JObj [(''name'', JStr ''Unprocessable Entity''),
                                 (''issues'', JArr [JObj [(''message'', JStr ''bad input'')]])]),
               (''statusCode'', JNum 422),
               (''timestamp'', JStr now)]"
proof (intro conjI)
  show "lookup_path (HONO_ERROR sc now statusCode message options) [''success'']
          = Some (JBool False)"
    by (simp add: HONO_ERROR_explicit)
next
  show "lookup_path (HONO_ERROR sc now statusCode message options) [''statusCode'']
       = Some (case HTTP sc statusCode of None \<Rightarrow> JUndefined | Some n \<Rightarrow> JNum n)"
    by (simp add: HONO_ERROR_explicit status_value_def)
next
  show "lookup_path (HONO_ERROR sc now statusCode message options) [''error'', ''name'']
       = Some (JStr (case eo_name options of
                       Some n \<Rightarrow> n
                     | None \<Rightarrow>
                         (case HTTP sc statusCode of
                            None \<Rightarrow> ''Error''
                          | Some n \<Rightarrow>
                              (case HTTP_STATUS_PHRASE sc n of
                                 None \<Rightarrow> ''Error''
                               | Some phrase \<Rightarrow> if phrase = [] then ''Error'' else phrase))))"
    by (cases "eo_name options") (simp_all add: HONO_ERROR_explicit default_name_def)
next
  show issues:
    "lookup_path (HONO_ERROR sc now statusCode message options) [''error'', ''issues'']
       = Some (JArr (case eo_issues options of
                       None \<Rightarrow> [JObj [(''message'', JStr message)]]
                     | Some is \<Rightarrow> is))"
    by (simp add: HONO_ERROR_explicit)
  show "(lookup_path (HONO_ERROR sc now statusCode message options) [''error'', ''issues'']
        = Some (JArr [])) = (eo_issues options = Some [])"
    unfolding issues by (cases "eo_issues options") simp_all
next
  show "HONO_ERROR spec_status_codes now ''UNPROCESSABLE_ENTITY'' ''bad input'' no_ErrorOptions
       = JObj [(''success'', JBool False),
               (''error'', JObj [(''name'', JStr ''Unprocessable Entity''),
                                 (''issues'', JArr [JObj [(''message'', JStr ''bad input'')]])]),
               (''statusCode'', JNum 422),
               (''timestamp'', JStr now)]"
    by (simp add: HONO_ERROR_explicit default_name_def status_value_def spec_status_codes_def
        no_ErrorOptions_def)
qed

text \<open>
  Claim C6 as stated says that \<open>error.issues\<close> is never empty. A caller who supplies
  the empty sequence gets it back: an array is truthy, so \<open>issues || [{message}]\<close>
  keeps it.
\<close>

theorem HONO_ERROR_empty_issues:
  "lookup_path
     (HONO_ERROR spec_status_codes ''2025-01-01T00:00:00.000Z'' ''UNPROCESSABLE_ENTITY''
        ''bad input''
        \<lparr> eo_name = None, eo_issues = Some [], eo_timestamp = None, eo_requestId = None \<rparr>)
     [''error'', ''issues'']
   = Some (JArr [])"
  by (simp add: HONO_ERROR_explicit)

section \<open>The success builder\<close>

text \<open>
  Claim C2. For every call of \<open>HONO_RESPONSE\<close>: when the status key is
  \<open>"NO_CONTENT"\<close> the envelope has no \<open>data\<close> property, whatever the caller supplies;
  for every other status key (the default \<open>"OK"\<close> included) the envelope has a \<open>data\<close>
  property if and only if the caller supplied one that is not \<open>undefined\<close>, and the
  property is then the caller's value.
\<close>

theorem HONO_RESPONSE_data:
  "((case ro_statusCode options of None \<Rightarrow> ''OK'' | Some k \<Rightarrow> k) = ''NO_CONTENT''
      \<longrightarrow> \<not> has_prop (HONO_RESPONSE sc now options) ''data'')
   \<and> ((case ro_statusCode options of None \<Rightarrow> ''OK'' | Some k \<Rightarrow> k) \<noteq> ''NO_CONTENT''
      \<longrightarrow> has_prop (HONO_RESPONSE sc now options) ''data'' = (ro_data options \<noteq> JUndefined)
        \<and> (ro_data options \<noteq> JUndefined
             \<longrightarrow> lookup_path (HONO_RESPONSE sc now options) [''data''] = Some (ro_data options)))"
  by (simp add: HONO_RESPONSE_explicit has_prop_def split: option.split)

text \<open>
  The theorem at \<open>{statusCode: "NO_CONTENT", data: {x: 1}}\<close>, where the data is
  dropped, and at \<open>{data: {x: 1}}\<close>, where it is kept.
\<close>

theorem HONO_RESPONSE_data_witness:
  "(case ro_statusCode (no_ResponseOptions
        \<lparr> ro_data := JObj [(''x'', JNum 1)], ro_statusCode := Some ''NO_CONTENT'' \<rparr>) of
      None \<Rightarrow> ''OK'' | Some k \<Rightarrow> k) = ''NO_CONTENT''
   \<and> \<not> has_prop (HONO_RESPONSE spec_status_codes ''2025-01-01T00:00:00.000Z''
        (no_ResponseOptions
           \<lparr> ro_data := JObj [(''x'', JNum 1)], ro_statusCode := Some ''NO_CONTENT'' \<rparr>)) ''data''
   \<and> (case ro_statusCode (no_ResponseOptions \<lparr> ro_data := JObj [(''x'', JNum 1)] \<rparr>) of
        None \<Rightarrow> ''OK'' | Some k \<Rightarrow> k) \<noteq> ''NO_CONTENT''
   \<and> ro_data (no_ResponseOptions \<lparr> ro_data := JObj [(''x'', JNum 1)] \<rparr>) \<noteq> JUndefined
   \<and> has_prop (HONO_RESPONSE spec_status_codes ''2025-01-01T00:00:00.000Z''
        (no_ResponseOptions \<lparr> ro_data := JObj [(''x'', JNum 1)] \<rparr>)) ''data''
   \<and> lookup_path (HONO_RESPONSE spec_status_codes ''2025-01-01T00:00:00.000Z''
        (no_ResponseOptions \<lparr> ro_data := JObj [(''x'', JNum 1)] \<rparr>)) [''data'']
       = Some (JObj [(''x'', JNum 1)])"
  using HONO_RESPONSE_data [of "no_ResponseOptions
           \<lparr> ro_data := JObj [(''x'', JNum 1)], ro_statusCode := Some ''NO_CONTENT'' \<rparr>"
          spec_status_codes "''2025-01-01T00:00:00.000Z''"]
        HONO_RESPONSE_data [of "no_ResponseOptions \<lparr> ro_data := JObj [(''x'', JNum 1)] \<rparr>"
          spec_status_codes "''2025-01-01T00:00:00.000Z''"]
  by (simp add: no_ResponseOptions_def)

text \<open>
  Claim C8, as amended. For every call of \<open>HONO_PAGINATED_RESPONSE\<close> whose status key
  is not \<open>"NO_CONTENT"\<close>, the envelope's \<open>data.pagination.hasNext\<close> is
  \<open>page < totalPages\<close> and its \<open>data.pagination.hasPrev\<close> is \<open>page > 1\<close> when the caller
  does not supply them, and is the caller's value, \<open>false\<close> too, when the caller does;
  under the status key \<open>"NO_CONTENT"\<close> the envelope carries no data, so no pagination.
  For every call the message is \<open>"Retrieved {items.length} items"\<close> unless the caller
  gives one that is not empty. In particular the call with items \<open>[1, 2, 3]\<close> and
  \<open>{page: 2, limit: 3, total: 10, totalPages: 4}\<close> has \<open>hasNext = true\<close>,
  \<open>hasPrev = true\<close> and the message \<open>"Retrieved 3 items"\<close>.
\<close>

theorem HONO_PAGINATED_RESPONSE_pagination:
  "lookup_path (HONO_PAGINATED_RESPONSE sc now items pagination options)
       [''data'', ''pagination'', ''hasNext'']
     = (if (case po_statusCode options of None \<Rightarrow> ''OK'' | Some k \<Rightarrow> k) = ''NO_CONTENT''
        then None
        else Some (JBool (case pg_hasNext pagination of
                            None \<Rightarrow> pg_page pagination < pg_totalPages pagination
                          | Some b \<Rightarrow> b)))
   \<and> lookup_path (HONO_PAGINATED_RESPONSE sc now items pagination options)
       [''data'', ''pagination'', ''hasPrev'']
     = (if (case po_statusCode options of None \<Rightarrow> ''OK'' | Some k \<Rightarrow> k) = ''NO_CONTENT''
        then None
        else Some (JBool (case pg_hasPrev pagination of
                            None \<Rightarrow> pg_page pagination > 1
                          | Some b \<Rightarrow> b)))
   \<and> lookup_path (HONO_PAGINATED_RESPONSE sc now items pagination options) [''message'']
     = Some (JStr (case po_message options of
                     None \<Rightarrow> ''Retrieved '' @ show_nat (length items) @ '' items''
                   | Some m \<Rightarrow>
                       if m = [] then ''Retrieved '' @ show_nat (length items) @ '' items''
                       else m))
   \<and> HONO_PAGINATED_RESPONSE spec_status_codes now [JNum 1, JNum 2, JNum 3]
        \<lparr> pg_page = 2, pg_limit = 3, pg_total = 10, pg_totalPages = 4,
          pg_hasNext = None, pg_hasPrev = None \<rparr> no_PaginatedOptions
     = JObj [(''success'', JBool True),
             (''message'', JStr ''Retrieved 3 items''),
             (''statusCode'', JNum 200),
             (''data'', JObj [(''items'', JArr [JNum 1, JNum 2, JNum 3]),
                              (''pagination'',
                               JObj [(''page'', JNum 2), (''limit'', JNum 3),
                                     (''total'', JNum 10), (''totalPages'', JNum 4),
                                     (''hasNext'', JBool True), (''hasPrev'', JBool True)])]),
             (''timestamp'', JStr now)]"
proof (intro conjI)
  show "lookup_path (HONO_PAGINATED_RESPONSE sc now items pagination options)
       [''data'', ''pagination'', ''hasNext'']
     = (if (case po_statusCode options of None \<Rightarrow> ''OK'' | Some k \<Rightarrow> k) = ''NO_CONTENT''
        then None
        else Some (JBool (case pg_hasNext pagination of
                            None \<Rightarrow> pg_page pagination < pg_totalPages pagination
                          | Some b \<Rightarrow> b)))"
    by (simp add: HONO_PAGINATED_RESPONSE_def HONO_RESPONSE_explicit paginationData_def
        map_of_requestId_prop)
next
  show "lookup_path (HONO_PAGINATED_RESPONSE sc now items pagination options)
       [''data'', ''pagination'', ''hasPrev'']
     = (if (case po_statusCode options of None \<Rightarrow> ''OK'' | Some k \<Rightarrow> k) = ''NO_CONTENT''
        then None
        else Some (JBool (case pg_hasPrev pagination of
                            None \<Rightarrow> pg_page pagination > 1
                          | Some b \<Rightarrow> b)))"
    by (simp add: HONO_PAGINATED_RESPONSE_def HONO_RESPONSE_explicit paginationData_def
        map_of_requestId_prop)
next
  show "lookup_path (HONO_PAGINATED_RESPONSE sc now items pagination options) [''message'']
     = Some (JStr (case po_message options of
                     None \<Rightarrow> ''Retrieved '' @ show_nat (length items) @ '' items''
                   | Some m \<Rightarrow>
                       if m = [] then ''Retrieved '' @ show_nat (length items) @ '' items''
                       else m))"
    by (cases "po_message options")
       (simp_all add: HONO_PAGINATED_RESPONSE_def HONO_RESPONSE_explicit paginated_message_def
          response_message_def map_of_requestId_prop)
next
  show "HONO_PAGINATED_RESPONSE spec_status_codes now [JNum 1, JNum 2, JNum 3]
        \<lparr> pg_page = 2, pg_limit = 3, pg_total = 10, pg_totalPages = 4,
          pg_hasNext = None, pg_hasPrev = None \<rparr> no_PaginatedOptions
     = JObj [(''success'', JBool True),
             (''message'', JStr ''Retrieved 3 items''),
             (''statusCode'', JNum 200),
             (''data'', JObj [(''items'', JArr [JNum 1, JNum 2, JNum 3]),
                              (''pagination'',
                               JObj [(''page'', JNum 2), (''limit'', JNum 3),
                                     (''total'', JNum 10), (''totalPages'', JNum 4),
                                     (''hasNext'', JBool True), (''hasPrev'', JBool True)])]),
             (''timestamp'', JStr now)]"
    by (simp add: HONO_PAGINATED_RESPONSE_def HONO_RESPONSE_explicit
        paginationData_def paginated_message_def response_message_def
        spec_status_codes_def no_PaginatedOptions_def status_value_def
        show_nat_digit digit_char_def)
qed

text \<open>
  Claim C8 as stated speaks of every call. The paginated builder passes the caller's
  status key on to \<open>HONO_RESPONSE\<close>, which writes no data under \<open>"NO_CONTENT"\<close>: the
  envelope of such a call has no \<open>data\<close> property, and so no \<open>pagination.hasNext\<close>.
\<close>

theorem HONO_PAGINATED_RESPONSE_no_content:
  "\<not> has_prop
       (HONO_PAGINATED_RESPONSE spec_status_codes ''2025-01-01T00:00:00.000Z''
          [JNum 1, JNum 2, JNum 3]
          \<lparr> pg_page = 2, pg_limit = 3, pg_total = 10, pg_totalPages = 4,
            pg_hasNext = None, pg_hasPrev = None \<rparr>
          \<lparr> po_message = None, po_statusCode = Some ''NO_CONTENT'', po_timestamp = None,
            po_requestId = None \<rparr>)
       ''data''
   \<and> lookup_path
       (HONO_PAGINATED_RESPONSE spec_status_codes ''2025-01-01T00:00:00.000Z''
          [JNum 1, JNum 2, JNum 3]
          \<lparr> pg_page = 2, pg_limit = 3, pg_total = 10, pg_totalPages = 4,
            pg_hasNext = None, pg_hasPrev = None \<rparr>
          \<lparr> po_message = None, po_statusCode = Some ''NO_CONTENT'', po_timestamp = None,
            po_requestId = None \<rparr>)
       [''data'', ''pagination'', ''hasNext'']
     = None"
  by (simp add: HONO_PAGINATED_RESPONSE_def HONO_RESPONSE_explicit has_prop_def)

section \<open>The type guards\<close>

text \<open>
  Claim C7, at the input \<open>null\<close>. \<open>response && response.success === false\<close> is
  \<open>response\<close> itself when \<open>response\<close> is not truthy: both guards return \<open>null\<close> for
  \<open>null\<close>, not the boolean \<open>false\<close>. Nothing is raised. (The lemmas
  \<open>guards_never_raise\<close>, \<open>guards_boolean_on_truthy\<close>, \<open>guards_examples\<close> and
  \<open>guards_on_envelopes\<close> above give the rest of the claim.)
\<close>

theorem guards_on_null:
  "isErrorResponse JNull = Inr JNull
   \<and> isSuccessResponse JNull = Inr JNull
   \<and> isErrorResponse JNull \<noteq> Inr (JBool False)
   \<and> isSuccessResponse JNull \<noteq> Inr (JBool False)"
  by (simp add: isErrorResponse_def isSuccessResponse_def)

text \<open>
  Claim C9. Every envelope of \<open>HONO_RESPONSE\<close>, \<open>HONO_ERROR\<close> and
  \<open>HONO_PAGINATED_RESPONSE\<close> can be serialised to JSON and parsed back, and on the
  value read back the matching guard returns \<open>true\<close> and the other guard \<open>false\<close>.
\<close>

theorem envelope_json_roundtrip:
  "(\<exists>w. json_roundtrip (HONO_RESPONSE sc now options) = Inr w
        \<and> isSuccessResponse w = Inr (JBool True) \<and> isErrorResponse w = Inr (JBool False))
   \<and> (\<exists>w. json_roundtrip (HONO_ERROR sc now statusCode message eoptions) = Inr w
        \<and> isErrorResponse w = Inr (JBool True) \<and> isSuccessResponse w = Inr (JBool False))
   \<and> (\<exists>w. json_roundtrip (HONO_PAGINATED_RESPONSE sc now items pagination poptions) = Inr w
        \<and> isSuccessResponse w = Inr (JBool True) \<and> isErrorResponse w = Inr (JBool False))"
proof (intro conjI)
  obtain rest where r: "HONO_RESPONSE sc now options = JObj ((''success'', JBool True) # rest)"
    using HONO_RESPONSE_shape by blast
  show "\<exists>w. json_roundtrip (HONO_RESPONSE sc now options) = Inr w
        \<and> isSuccessResponse w = Inr (JBool True) \<and> isErrorResponse w = Inr (JBool False)"
    using roundtrip_guards [of True rest] by (simp add: r)
next
  obtain rest where r:
    "HONO_ERROR sc now statusCode message eoptions = JObj ((''success'', JBool False) # rest)"
    using HONO_ERROR_shape by blast
  show "\<exists>w. json_roundtrip (HONO_ERROR sc now statusCode message eoptions) = Inr w
        \<and> isErrorResponse w = Inr (JBool True) \<and> isSuccessResponse w = Inr (JBool False)"
    using roundtrip_guards [of False rest] by (simp add: r)
next
  obtain rest where r:
    "HONO_PAGINATED_RESPONSE sc now items pagination poptions
       = JObj ((''success'', JBool True) # rest)"
    using HONO_PAGINATED_RESPONSE_shape by blast
  show "\<exists>w. json_roundtrip (HONO_PAGINATED_RESPONSE sc now items pagination poptions) = Inr w
        \<and> isSuccessResponse w = Inr (JBool True) \<and> isErrorResponse w = Inr (JBool False)"
    using roundtrip_guards [of True rest] by (simp add: r)
qed

section \<open>The validation hook's response\<close>

text \<open>
  Claim C1, as amended. For every validation result with \<open>success = false\<close>, a hook
  made by \<open>createDefaultHook\<close> returns a JSON response with the status 422 whose body
  is an error envelope with \<open>success = false\<close>, \<open>statusCode\<close> 422, \<open>error.name\<close>
  \<open>"Validation Error"\<close> and no \<open>message\<close> property of its own. When the hook was made
  with \<open>includeErrorDetails\<close> true (the default) and the result carries an error with
  issues, \<open>error.issues\<close> maps every issue, in order, to \<open>{message, path, code}\<close>, where
  \<open>path\<close> is the field path joined by dots and is absent when that string is empty
  (the root level), and \<open>code\<close> is absent when empty; in every other case \<open>error.issues\<close>
  is exactly \<open>[{message: "Validation failed"}]\<close>. The status table is assumed to give
  \<open>UNPROCESSABLE_ENTITY\<close> the number 422.
\<close>

theorem createDefaultHook_response:
  assumes "\<not> vr_success result"
    and "HTTP sc ''UNPROCESSABLE_ENTITY'' = Some 422"
    and "UNPROCESSABLE_ENTITY sc = 422"
  shows "\<exists>body.
      createDefaultHook sc now includeErrorDetails result c
        = Some \<lparr> resp_body = body, resp_status = 422 \<rparr>
    \<and> lookup_path body [''success''] = Some (JBool False)
    \<and> lookup_path body [''statusCode''] = Some (JNum 422)
    \<and> lookup_path body [''message''] = None
    \<and> lookup_path body [''error'', ''name''] = Some (JStr ''Validation Error'')
    \<and> lookup_path body [''error'', ''issues'']
        = Some (JArr
            (case (if includeErrorDetails then result_issues result else None) of
               Some zis \<Rightarrow>
                 map (\<lambda>i. JObj ([(''message'', JStr (zi_message i))]
                          @ (if join_dot (map string_of_key (zi_path i)) = [] then []
                             else [(''path'', JStr (join_dot (map string_of_key (zi_path i))))])
                          @ (if zi_code i = [] then [] else [(''code'', JStr (zi_code i))]))) zis
             | None \<Rightarrow> [JObj [(''message'', JStr ''Validation failed'')]]))"
proof -
  let ?issues =
    "case (if includeErrorDetails then result_issues result else None) of
       Some zis \<Rightarrow> map issue_object zis
     | None \<Rightarrow> [JObj [(''message'', JStr ''Validation failed'')]]"
  let ?body =
    "JObj ([(''success'', JBool False),
            (''error'', JObj [(''name'', JStr ''Validation Error''),
                              (''issues'', JArr (map json_value ?issues))]),
            (''statusCode'', JNum 422),
            (''timestamp'', JStr now)]
           @ (case c ''requestId'' of
                None \<Rightarrow> []
              | Some r \<Rightarrow> if r = [] then [] else [(''requestId'', JStr r)]))"
  have hook: "createDefaultHook sc now includeErrorDetails result c
                = Some \<lparr> resp_body = ?body, resp_status = 422 \<rparr>"
    using assms
    by (cases "c ''requestId''")
       (simp_all add: createDefaultHook_def c_json_def HONO_ERROR_explicit status_value_def
          json_props_append json_elems_map)
  have issues: "map json_value ?issues
      = (case (if includeErrorDetails then result_issues result else None) of
               Some zis \<Rightarrow>
                 map (\<lambda>i. JObj ([(''message'', JStr (zi_message i))]
                          @ (if join_dot (map string_of_key (zi_path i)) = [] then []
                             else [(''path'', JStr (join_dot (map string_of_key (zi_path i))))])
                          @ (if zi_code i = [] then [] else [(''code'', JStr (zi_code i))]))) zis
             | None \<Rightarrow> [JObj [(''message'', JStr ''Validation failed'')]])"
    by (cases "if includeErrorDetails then result_issues result else None")
       (simp_all add: json_value_issue_object comp_def)
  have "lookup_path ?body [''success''] = Some (JBool False)"
    and "lookup_path ?body [''statusCode''] = Some (JNum 422)"
    and "lookup_path ?body [''message''] = None"
    and "lookup_path ?body [''error'', ''name''] = Some (JStr ''Validation Error'')"
    and "lookup_path ?body [''error'', ''issues''] = Some (JArr (map json_value ?issues))"
    by (simp_all split: option.split)
  with hook issues show ?thesis
    by (intro exI [of _ ?body]) simp
qed

text \<open>
  The theorem at a failed result with two issues, one at the path \<open>user.0.email\<close> and
  one at the root, for a request with the id \<open>req-1\<close>.
\<close>

theorem createDefaultHook_response_witness:
  "\<not> vr_success
       \<lparr> vr_success = False,
         vr_error = Some \<lparr> ze_issues = Some
           [\<lparr> zi_message = ''Required'', zi_path = [Key ''user'', Index 0, Key ''email''],
              zi_code = ''invalid_type'' \<rparr>,
            \<lparr> zi_message = ''Invalid input'', zi_path = [], zi_code = ''custom'' \<rparr>] \<rparr> \<rparr>
   \<and> HTTP spec_status_codes ''UNPROCESSABLE_ENTITY'' = Some 422
   \<and> UNPROCESSABLE_ENTITY spec_status_codes = 422
   \<and> (\<exists>body.
        createDefaultHook spec_status_codes ''2025-01-01T00:00:00.000Z'' True
          \<lparr> vr_success = False,
            vr_error = Some \<lparr> ze_issues = Some
              [\<lparr> zi_message = ''Required'', zi_path = [Key ''user'', Index 0, Key ''email''],
                 zi_code = ''invalid_type'' \<rparr>,
               \<lparr> zi_message = ''Invalid input'', zi_path = [], zi_code = ''custom'' \<rparr>] \<rparr> \<rparr>
          [''requestId'' \<mapsto> ''req-1'']
          = Some \<lparr> resp_body = body, resp_status = 422 \<rparr>
      \<and> lookup_path body [''error'', ''issues'']
          = Some (JArr [JObj [(''message'', JStr ''Required''),
                              (''path'', JStr ''user.0.email''),
                              (''code'', JStr ''invalid_type'')],
                        JObj [(''message'', JStr ''Invalid input''),
                              (''code'', JStr ''custom'')]]))"
proof -
  let ?result =
    "\<lparr> vr_success = False,
       vr_error = Some \<lparr> ze_issues = Some
         [\<lparr> zi_message = ''Required'', zi_path = [Key ''user'', Index 0, Key ''email''],
            zi_code = ''invalid_type'' \<rparr>,
          \<lparr> zi_message = ''Invalid input'', zi_path = [], zi_code = ''custom'' \<rparr>] \<rparr> \<rparr>"
  have h1: "\<not> vr_success ?result"
    by simp
  have h2: "HTTP spec_status_codes ''UNPROCESSABLE_ENTITY'' = Some 422"
    by (simp add: spec_status_codes_def)
  have h3: "UNPROCESSABLE_ENTITY spec_status_codes = 422"
    by (simp add: spec_status_codes_def)
  from createDefaultHook_response
         [OF h1 h2 h3, of "''2025-01-01T00:00:00.000Z''" True "[''requestId'' \<mapsto> ''req-1'']"]
  obtain body where
    b: "createDefaultHook spec_status_codes ''2025-01-01T00:00:00.000Z'' True ?result
          [''requestId'' \<mapsto> ''req-1''] = Some \<lparr> resp_body = body, resp_status = 422 \<rparr>"
    and i: "lookup_path body [''error'', ''issues'']
        = Some (JArr
            (case (if True then result_issues ?result else None) of
               Some zis \<Rightarrow>
                 map (\<lambda>i. JObj ([(''message'', JStr (zi_message i))]
                          @ (if join_dot (map string_of_key (zi_path i)) = [] then []
                             else [(''path'', JStr (join_dot (map string_of_key (zi_path i))))])
                          @ (if zi_code i = [] then [] else [(''code'', JStr (zi_code i))]))) zis
             | None \<Rightarrow> [JObj [(''message'', JStr ''Validation failed'')]]))"
    by blast
  have "lookup_path body [''error'', ''issues'']
          = Some (JArr [JObj [(''message'', JStr ''Required''),
                              (''path'', JStr ''user.0.email''),
                              (''code'', JStr ''invalid_type'')],
                        JObj [(''message'', JStr ''Invalid input''),
                              (''code'', JStr ''custom'')]])"
    unfolding i by (simp add: result_issues_def show_nat_digit digit_char_def)
  with h1 h2 h3 b show ?thesis
    by blast
qed

text \<open>
  Claim C1 as stated fails in two places, both at a failed result with one issue. The
  body of the response has no \<open>message\<close> property: \<open>"Validation failed"\<close> is the message
  argument of \<open>HONO_ERROR\<close>, which uses it only when no issues are passed. And a hook
  made with \<open>includeErrorDetails\<close> false answers with the generic issue although the
  result carries a structured one.
\<close>

theorem createDefaultHook_message_and_details:
  "map_option (\<lambda>r. lookup_path (resp_body r) [''message''])
     (createDefaultHook spec_status_codes ''2025-01-01T00:00:00.000Z'' True
        \<lparr> vr_success = False,
          vr_error = Some \<lparr> ze_issues = Some
            [\<lparr> zi_message = ''Required'', zi_path = [Key ''email''],
               zi_code = ''invalid_type'' \<rparr>] \<rparr> \<rparr>
        Map.empty)
     = Some None
   \<and> map_option (\<lambda>r. lookup_path (resp_body r) [''error'', ''issues''])
     (createDefaultHook spec_status_codes ''2025-01-01T00:00:00.000Z'' False
        \<lparr> vr_success = False,
          vr_error = Some \<lparr> ze_issues = Some
            [\<lparr> zi_message = ''Required'', zi_path = [Key ''email''],
               zi_code = ''invalid_type'' \<rparr>] \<rparr> \<rparr>
        Map.empty)
     = Some (Some (JArr [JObj [(''message'', JStr ''Validation failed'')]]))"
  by (simp add: createDefaultHook_def c_json_def HONO_ERROR_def Let_def status_value_def
      add_requestId_def result_issues_def issue_object_def or_undefined_def
      spec_status_codes_def)

section \<open>What the logger sends to the collector\<close>

text \<open>
  Claim C3. The log entry of a call carries an identifier if and only if the level is
  \<open>error\<close>, \<open>warn\<close> or \<open>verbose\<close>; the identifier is then the token drawn for the call.
  Two entries of the same level agree on whether they carry one, whatever the runtime,
  the message and the context.
\<close>

theorem createLogEntry_logId:
  "(le_logId (createLogEntry rt lvl message context) \<noteq> None)
     = (lvl = L_error \<or> lvl = L_warn \<or> lvl = L_verbose)
   \<and> le_logId (createLogEntry rt lvl message context)
     = (if lvl = L_error \<or> lvl = L_warn \<or> lvl = L_verbose then Some (rt_nanoid rt) else None)
   \<and> (le_logId (createLogEntry rt lvl message context) = None)
     = (le_logId (createLogEntry rt' lvl message' context') = None)"
  by (cases lvl) (simp_all add: createLogEntry_def Let_def)

text \<open>
  Claim C4. A \<open>debug\<close> or \<open>verbose\<close> call makes one collector call, a breadcrumb of
  severity \<open>"debug"\<close>, exactly when \<open>SENTRY_ENABLED\<close> and \<open>SENTRY_ENABLE_LOGS\<close> are true
  and the environment is \<open>development\<close>; otherwise it makes none, in particular in
  \<open>production\<close> and \<open>test\<close> with both flags set. Neither ever captures an exception or
  a message.
\<close>

theorem debug_verbose_forwarding:
  "sentry_calls (logger_debug e rt message context)
     = (if SENTRY_ENABLED e \<and> SENTRY_ENABLE_LOGS e \<and> NODE_ENV e = development
        then [Sentry_addBreadcrumb
                \<lparr> bc_message = message, bc_level = ''debug'', bc_category = ''logger'',
                  bc_data = JObj (case context of None \<Rightarrow> [] | Some ps \<Rightarrow> ps) \<rparr>]
        else [])
   \<and> sentry_calls (logger_verbose e rt message context)
     = (if SENTRY_ENABLED e \<and> SENTRY_ENABLE_LOGS e \<and> NODE_ENV e = development
        then [Sentry_addBreadcrumb
                \<lparr> bc_message = message, bc_level = ''debug'', bc_category = ''logger'',
                  bc_data = JObj (spread [(''logId'', JStr (rt_nanoid rt))]
                                    (case context of None \<Rightarrow> [] | Some ps \<Rightarrow> ps)) \<rparr>]
        else [])
   \<and> sentry_calls (logger_debug
        \<lparr> NODE_ENV = production, SENTRY_ENABLED = True, SENTRY_ENABLE_LOGS = True \<rparr>
        rt message context) = []
   \<and> sentry_calls (logger_verbose
        \<lparr> NODE_ENV = test, SENTRY_ENABLED = True, SENTRY_ENABLE_LOGS = True \<rparr>
        rt message context) = []
   \<and> filter is_capture (sentry_calls (logger_debug e rt message context)) = []
   \<and> filter is_capture (sentry_calls (logger_verbose e rt message context)) = []"
  by (simp add: logger_debug_def logger_verbose_def createLogEntry_def Let_def
      logId_value_def)

text \<open>
  Claim C5. With \<open>SENTRY_ENABLED\<close> and \<open>SENTRY_ENABLE_LOGS\<close> both true, an \<open>error\<close> call
  makes two collector calls: one breadcrumb of severity \<open>"error"\<close>, then the capture of
  an exception that carries the message, of level \<open>"error"\<close> and tagged with the
  entry's identifier; a \<open>warn\<close> call makes one breadcrumb, then the capture of the
  message with severity \<open>"warning"\<close>, tagged with the identifier. When either flag is
  false, neither makes a collector call.
\<close>

theorem error_warn_forwarding:
  "sentry_calls (logger_error e rt message context)
     = (if SENTRY_ENABLED e \<and> SENTRY_ENABLE_LOGS e
        then [Sentry_addBreadcrumb
                \<lparr> bc_message = message, bc_level = ''error'', bc_category = ''logger'',
                  bc_data = JObj (spread [(''logId'', JStr (rt_nanoid rt))]
                                    (case context of None \<Rightarrow> [] | Some ps \<Rightarrow> ps)) \<rparr>,
              Sentry_captureException message
                \<lparr> cc_tags = [(''source'', JStr ''custom-logger''),
                             (''logId'', JStr (rt_nanoid rt))],
                  cc_level = Some ''error'',
                  cc_extra = JObj (case context of None \<Rightarrow> [] | Some ps \<Rightarrow> ps) \<rparr>]
        else [])
   \<and> sentry_calls (logger_warn e rt message context)
     = (if SENTRY_ENABLED e \<and> SENTRY_ENABLE_LOGS e
        then [Sentry_addBreadcrumb
                \<lparr> bc_message = message, bc_level = ''warning'', bc_category = ''logger'',
                  bc_data = JObj (spread [(''logId'', JStr (rt_nanoid rt))]
                                    (case context of None \<Rightarrow> [] | Some ps \<Rightarrow> ps)) \<rparr>,
              Sentry_captureMessage message
                \<lparr> cc_tags = [(''source'', JStr ''custom-logger''),
                             (''logId'', JStr (rt_nanoid rt))],
                  cc_level = Some ''warning'',
                  cc_extra = JObj (case context of None \<Rightarrow> [] | Some ps \<Rightarrow> ps) \<rparr>]
        else [])"
  by (simp add: logger_error_def logger_warn_def createLogEntry_def Let_def
      logId_value_def capture_tags_def)

text \<open>
  Claim C10. Each operation of \<open>logger.sentry\<close> makes its one collector call exactly
  when \<open>SENTRY_ENABLED\<close> is true, whatever \<open>SENTRY_ENABLE_LOGS\<close> and the environment
  are, and makes no collector call when \<open>SENTRY_ENABLED\<close> is false.
\<close>

theorem logger_sentry_gate:
  "sentry_calls (logger_sentry_captureException
       \<lparr> NODE_ENV = n, SENTRY_ENABLED = enabled, SENTRY_ENABLE_LOGS = logs \<rparr> rt err context)
     = (if enabled
        then [Sentry_captureException err
                \<lparr> cc_tags = [(''source'', JStr ''custom-logger''),
                             (''logId'', JStr (rt_nanoid rt))],
                  cc_level = None,
                  cc_extra = (case context of None \<Rightarrow> JUndefined | Some ps \<Rightarrow> JObj ps) \<rparr>]
        else [])
   \<and> sentry_calls (logger_sentry_captureMessage
       \<lparr> NODE_ENV = n, SENTRY_ENABLED = enabled, SENTRY_ENABLE_LOGS = logs \<rparr> rt message lvl extra)
     = (if enabled
        then [Sentry_captureMessage message
                \<lparr> cc_tags = [(''source'', JStr ''custom-logger''),
                             (''logId'', JStr (rt_nanoid rt))],
                  cc_level = Some (case lvl of None \<Rightarrow> ''info'' | Some l \<Rightarrow> l),
                  cc_extra = (case extra of None \<Rightarrow> JUndefined | Some ps \<Rightarrow> JObj ps) \<rparr>]
        else [])
   \<and> sentry_calls (logger_sentry_setContext
       \<lparr> NODE_ENV = n, SENTRY_ENABLED = enabled, SENTRY_ENABLE_LOGS = logs \<rparr> key ctx)
     = (if enabled then [Sentry_setContext key ctx] else [])
   \<and> sentry_calls (logger_sentry_setUser
       \<lparr> NODE_ENV = n, SENTRY_ENABLED = enabled, SENTRY_ENABLE_LOGS = logs \<rparr> user)
     = (if enabled then [Sentry_setUser user] else [])
   \<and> sentry_calls (logger_sentry_setTag
       \<lparr> NODE_ENV = n, SENTRY_ENABLED = enabled, SENTRY_ENABLE_LOGS = logs \<rparr> key tag)
     = (if enabled then [Sentry_setTag key tag] else [])
   \<and> sentry_calls (logger_sentry_addBreadcrumb
       \<lparr> NODE_ENV = n, SENTRY_ENABLED = enabled, SENTRY_ENABLE_LOGS = logs \<rparr> message cat blvl data)
     = (if enabled
        then [Sentry_addBreadcrumb
                \<lparr> bc_message = message,
                  bc_level = (case blvl of None \<Rightarrow> ''info'' | Some l \<Rightarrow> l),
                  bc_category = (case cat of None \<Rightarrow> ''custom'' | Some c \<Rightarrow> c),
                  bc_data = (case data of None \<Rightarrow> JUndefined | Some ps \<Rightarrow> JObj ps) \<rparr>]
        else [])"
  by (simp add: logger_sentry_captureException_def logger_sentry_captureMessage_def
      logger_sentry_setContext_def logger_sentry_setUser_def logger_sentry_setTag_def
      logger_sentry_addBreadcrumb_def Let_def capture_tags_def logId_value_def
      optional_object_def)

end
